theory Spec2Isabelle
  imports Complex_Main "HOL-Library.Word"
begin

section \<open>Shared contracts (common/utils.go)\<close>

type_synonym byte = "8 word"

text \<open>
  Go's \<open>int\<close> and \<open>int64\<close> are modelled by \<open>int\<close>; no operation of the modelled code
  overflows 64 bits on the values it is given, and the one narrowing conversion of the
  code, \<open>int32(i)\<close>, is written out. A \<open>time.Time\<close> is an instant counted in
  nanoseconds.
\<close>

type_synonym time = int

definition ChunkSize :: int where
  "ChunkSize = 64 * 1024 * 1024"

definition ReplicationFactor :: int where
  "ReplicationFactor = 3"

text \<open>Go's \<open>/\<close> and \<open>%\<close> on integers truncate towards zero.\<close>

definition go_quot :: "int \<Rightarrow> int \<Rightarrow> int" where
  "go_quot a b = sgn a * sgn b * (\<bar>a\<bar> div \<bar>b\<bar>)"

definition go_rem :: "int \<Rightarrow> int \<Rightarrow> int" where
  "go_rem a b = a - b * go_quot a b"

text \<open>The conversion \<open>int32(i)\<close> keeps the low 32 bits, read as two's complement.\<close>

definition int32 :: "int \<Rightarrow> int" where
  "int32 i = (i + 2 ^ 31) mod 2 ^ 32 - 2 ^ 31"

definition CalculateNumChunks :: "int \<Rightarrow> int" where
  "CalculateNumChunks filesize =
     (let numChunks = go_quot filesize ChunkSize
      in if go_rem filesize ChunkSize \<noteq> 0 then numChunks + 1 else numChunks)"

text \<open>\<open>fmt.Sprintf("%d", i)\<close> and \<open>fmt.Sprintf("%x", bytes)\<close>.\<close>

definition digit_char :: "nat \<Rightarrow> char" where
  "digit_char d = ''0123456789abcdef'' ! (d mod 16)"

fun decimal_nat :: "nat \<Rightarrow> string" where
  "decimal_nat n = (if n < 10 then [digit_char n] else decimal_nat (n div 10) @ [digit_char (n mod 10)])"

declare decimal_nat.simps [simp del]

definition Sprintf_d :: "int \<Rightarrow> string" where
  "Sprintf_d i = (if i < 0 then CHR ''-'' # decimal_nat (nat (- i)) else decimal_nat (nat i))"

definition Sprintf_x :: "byte list \<Rightarrow> string" where
  "Sprintf_x bs = concat (map (\<lambda>b. [digit_char (unat b div 16), digit_char (unat b mod 16)]) bs)"

text \<open>
  \<open>crypto/sha256\<close> is not code of the repository: the digest function \<open>sha256\<close> is a
  parameter of \<open>GenerateChunkHandle\<close> and of everything that derives handles.
\<close>

definition GenerateChunkHandle :: "(string \<Rightarrow> byte list) \<Rightarrow> string \<Rightarrow> int \<Rightarrow> string" where
  "GenerateChunkHandle sha256 filename chunkIndex =
     (let data = filename @ ''-'' @ Sprintf_d chunkIndex;
          hash = sha256 data
      in Sprintf_x (take 16 hash))"

section \<open>Errors\<close>

text \<open>
  Every error value the code builds, and the run-time panics it can reach. The messages
  of the source are kept as constructor names: \<open>FileNotFound\<close> is
  \<open>"file not found: %s"\<close>, \<open>ChunkNotFound\<close> is \<open>"chunk not found: %s"\<close> (built both by the
  master and by the chunk server's storage), \<open>Unavailable\<close> is a transport failure
  reaching the named address.
\<close>

datatype error =
    Panic string
  | FileNotFound string
  | ChunkNotFound string
  | WriteChunkToDiskFailed
  | ReadChunkFailed
  | DeleteChunkFailed
  | Unavailable string
  | NoServerHasChunk
  | ReadLocalFileFailed
  | RequestUploadFailed error
  | UploadChunkFailed int error
  | RequestDownloadFailed error
  | DownloadChunkFailed int error

section \<open>The master's metadata (master/metadata.go)\<close>

record FileMetadata =
  Filename :: string
  Filesize :: int
  ChunkCount :: int
  Chunks :: "string list"
  CreatedAt :: time

record ChunkMetadata =
  ChunkHandle :: string
  Locations :: "string list"
  Version :: int
  ChunkFilename :: string
  ChunkIndex :: int

record ChunkServerInfo =
  Address :: string
  LatestHeartbeat :: time
  ServerChunks :: "string list"

text \<open>
  The map \<open>files\<close> holds pointers to \<open>FileMetadata\<close> values, and \<open>ListFiles\<close> and
  \<open>GetFile\<close> hand these pointers to their callers: the file records live in an explicit
  heap \<open>file_heap\<close>, a pointer is an address of it, and \<open>next_ref\<close> is the next address
  the allocator gives out. Chunk and server records are only read and written through
  their maps, one key at a time, and are kept by value.
\<close>

record Metadata =
  files :: "string \<rightharpoonup> nat"
  file_heap :: "nat \<Rightarrow> FileMetadata"
  next_ref :: nat
  chunks :: "string \<rightharpoonup> ChunkMetadata"
  chunkServers :: "string \<rightharpoonup> ChunkServerInfo"

definition AddFile :: "string \<Rightarrow> int \<Rightarrow> int \<Rightarrow> time \<Rightarrow> Metadata \<Rightarrow> error + Metadata" where
  "AddFile filename filesize chunkCount now m =
     (if chunkCount < 0 then Inl (Panic ''makeslice: cap out of range'')
      else Inr (m\<lparr>files := (files m)(filename \<mapsto> next_ref m),
                  file_heap := (file_heap m)(next_ref m :=
                     \<lparr>Filename = filename, Filesize = filesize, ChunkCount = chunkCount,
                      Chunks = [], CreatedAt = now\<rparr>),
                  next_ref := Suc (next_ref m)\<rparr>))"

definition AddChunkToFile :: "string \<Rightarrow> string \<Rightarrow> Metadata \<Rightarrow> Metadata" where
  "AddChunkToFile filename chunkHandle m =
     (case files m filename of
        Some file \<Rightarrow>
          m\<lparr>file_heap := (file_heap m)(file :=
               (file_heap m file)\<lparr>Chunks := Chunks (file_heap m file) @ [chunkHandle]\<rparr>)\<rparr>
      | None \<Rightarrow> m)"

definition AddChunk :: "string \<Rightarrow> string \<Rightarrow> int \<Rightarrow> Metadata \<Rightarrow> Metadata" where
  "AddChunk chunkHandle filename chunkIndex m =
     m\<lparr>chunks := (chunks m)(chunkHandle \<mapsto>
          \<lparr>ChunkHandle = chunkHandle, Locations = [], Version = 1,
           ChunkFilename = filename, ChunkIndex = chunkIndex\<rparr>)\<rparr>"

definition AddChunkLocation :: "string \<Rightarrow> string \<Rightarrow> Metadata \<Rightarrow> Metadata" where
  "AddChunkLocation chunkHandle serverAddress m =
     (case chunks m chunkHandle of
        Some chunk \<Rightarrow>
          if serverAddress \<in> set (Locations chunk) then m
          else m\<lparr>chunks := (chunks m)(chunkHandle \<mapsto>
                   chunk\<lparr>Locations := Locations chunk @ [serverAddress]\<rparr>)\<rparr>
      | None \<Rightarrow> m)"

definition GetFile :: "string \<Rightarrow> Metadata \<Rightarrow> nat option" where
  "GetFile filename m = files m filename"

definition GetChunk :: "string \<Rightarrow> Metadata \<Rightarrow> ChunkMetadata option" where
  "GetChunk chunkHandle m = chunks m chunkHandle"

text \<open>
  Go iterates a map in an order that the runtime chooses anew at each loop. Every loop
  over a map takes that order as a parameter: a list of keys. For a map \<open>mp\<close> the
  runtime's orders are the lists \<open>ks\<close> with \<open>iteration_of ks mp\<close>.
\<close>

definition iteration_of :: "'k list \<Rightarrow> ('k \<rightharpoonup> 'v) \<Rightarrow> bool" where
  "iteration_of ks mp \<longleftrightarrow> distinct ks \<and> set ks = dom mp"

fun ListFiles_loop :: "(string \<rightharpoonup> nat) \<Rightarrow> string list \<Rightarrow> nat list \<Rightarrow> nat list" where
  "ListFiles_loop fs [] acc = acc"
| "ListFiles_loop fs (k # ks) acc =
     (case fs k of
        Some file \<Rightarrow> ListFiles_loop fs ks (acc @ [file])
      | None \<Rightarrow> ListFiles_loop fs ks acc)"

definition ListFiles :: "string list \<Rightarrow> Metadata \<Rightarrow> nat list" where
  "ListFiles order m = ListFiles_loop (files m) order []"

definition RegisterChunkServer :: "string \<Rightarrow> string list \<Rightarrow> time \<Rightarrow> Metadata \<Rightarrow> Metadata" where
  "RegisterChunkServer address cs now m =
     (case chunkServers m address of
        Some server \<Rightarrow>
          m\<lparr>chunkServers := (chunkServers m)(address \<mapsto>
               server\<lparr>LatestHeartbeat := now, ServerChunks := cs\<rparr>)\<rparr>
      | None \<Rightarrow>
          m\<lparr>chunkServers := (chunkServers m)(address \<mapsto>
               \<lparr>Address = address, LatestHeartbeat = now, ServerChunks = cs\<rparr>)\<rparr>)"

text \<open>
  \<open>time.Time.Sub\<close> returns a \<open>Duration\<close>, a 64-bit count of nanoseconds, and saturates
  at its two ends.
\<close>

definition maxDuration :: int where
  "maxDuration = 2 ^ 63 - 1"

definition minDuration :: int where
  "minDuration = - (2 ^ 63)"

definition Sub :: "time \<Rightarrow> time \<Rightarrow> int" where
  "Sub t u =
     (let d = t - u
      in if d > maxDuration then maxDuration else if d < minDuration then minDuration else d)"

definition Second :: int where
  "Second = 1000000000"

text \<open>
  The loop of \<open>GetAvailableChunkServers\<close>: \<open>servers\<close> is the slice built so far, the
  list argument the keys still to visit. The bound is tested only after an append.
\<close>

fun GetAvailableChunkServers_loop ::
  "(string \<rightharpoonup> ChunkServerInfo) \<Rightarrow> time \<Rightarrow> int \<Rightarrow> string list \<Rightarrow> string list \<Rightarrow> string list" where
  "GetAvailableChunkServers_loop css now replicationFactor [] servers = servers"
| "GetAvailableChunkServers_loop css now replicationFactor (address # rest) servers =
     (case css address of
        None \<Rightarrow> GetAvailableChunkServers_loop css now replicationFactor rest servers
      | Some server \<Rightarrow>
          if Sub now (LatestHeartbeat server) < 30 * Second then
            (let servers' = servers @ [address]
             in if int (length servers') \<ge> replicationFactor then servers'
                else GetAvailableChunkServers_loop css now replicationFactor rest servers')
          else GetAvailableChunkServers_loop css now replicationFactor rest servers)"

definition GetAvailableChunkServers ::
  "int \<Rightarrow> time \<Rightarrow> string list \<Rightarrow> Metadata \<Rightarrow> error + string list" where
  "GetAvailableChunkServers replicationFactor now order m =
     (if replicationFactor < 0 then Inl (Panic ''makeslice: cap out of range'')
      else Inr (GetAvailableChunkServers_loop (chunkServers m) now replicationFactor order []))"

definition NewMetadata :: Metadata where
  "NewMetadata = \<lparr>files = Map.empty, file_heap = (\<lambda>_. \<lparr>Filename = [], Filesize = 0,
      ChunkCount = 0, Chunks = [], CreatedAt = 0\<rparr>), next_ref = 0, chunks = Map.empty,
      chunkServers = Map.empty\<rparr>"

section \<open>The master's RPC handlers (master/server.go)\<close>

record ChunkLocation =
  loc_ChunkHandle :: string
  loc_ChunkServerAddresses :: "string list"
  loc_ChunkIndex :: int

record DownloadFileResponse =
  resp_Filesize :: int
  resp_ChunkLocation :: "ChunkLocation list"


text \<open>
  What a handler reads from its surroundings while it runs: the clock at \<open>AddFile\<close>, and,
  at the \<open>i\<close>-th round of the allocation loop, the clock and the order in which the
  runtime iterates \<open>chunkServers\<close>.
\<close>

record UploadEnv =
  created :: time
  round_now :: "nat \<Rightarrow> time"
  round_order :: "nat \<Rightarrow> string list"

text \<open>The first \<open>n\<close> rounds of the loop \<open>for i := range numChunks\<close>.\<close>

primrec UploadFile_loop ::
  "(string \<Rightarrow> byte list) \<Rightarrow> UploadEnv \<Rightarrow> string \<Rightarrow> nat \<Rightarrow> Metadata
     \<Rightarrow> error + (ChunkLocation list \<times> Metadata)" where
  "UploadFile_loop sha256 env filename 0 m = Inr ([], m)"
| "UploadFile_loop sha256 env filename (Suc i) m =
     (case UploadFile_loop sha256 env filename i m of
        Inl e \<Rightarrow> Inl e
      | Inr (chunkLocations, m1) \<Rightarrow>
          (let chunkHandle = GenerateChunkHandle sha256 filename (int i);
               m2 = AddChunk chunkHandle filename (int32 (int i)) m1;
               m3 = AddChunkToFile filename chunkHandle m2
           in case GetAvailableChunkServers ReplicationFactor (round_now env i)
                     (round_order env i) m3 of
                Inl e \<Rightarrow> Inl e
              | Inr servers \<Rightarrow>
                  Inr (chunkLocations @
                         [\<lparr>loc_ChunkHandle = chunkHandle, loc_ChunkServerAddresses = servers,
                           loc_ChunkIndex = int32 (int i)\<rparr>], m3)))"

text \<open>
  A handler returns its reply, or the error it fails with, and the metadata it leaves.
  A panic ends the handler where it happens.
\<close>

definition UploadFile ::
  "(string \<Rightarrow> byte list) \<Rightarrow> UploadEnv \<Rightarrow> string \<Rightarrow> int \<Rightarrow> Metadata
     \<Rightarrow> (error + ChunkLocation list) \<times> Metadata" where
  "UploadFile sha256 env filename filesize m =
     (let numChunks = CalculateNumChunks filesize
      in case AddFile filename filesize numChunks (created env) m of
           Inl e \<Rightarrow> (Inl e, m)
         | Inr m1 \<Rightarrow>
             (case UploadFile_loop sha256 env filename (nat numChunks) m1 of
                Inl e \<Rightarrow> (Inl e, m1)
              | Inr (chunkLocations, m2) \<Rightarrow> (Inr chunkLocations, m2)))"

fun DownloadFile_loop ::
  "Metadata \<Rightarrow> string list \<Rightarrow> ChunkLocation list \<Rightarrow> error + ChunkLocation list" where
  "DownloadFile_loop m [] chunkLocations = Inr chunkLocations"
| "DownloadFile_loop m (chunkHandle # rest) chunkLocations =
     (case GetChunk chunkHandle m of
        None \<Rightarrow> Inl (ChunkNotFound chunkHandle)
      | Some chunk \<Rightarrow>
          DownloadFile_loop m rest (chunkLocations @
            [\<lparr>loc_ChunkHandle = chunkHandle, loc_ChunkServerAddresses = Locations chunk,
              loc_ChunkIndex = ChunkIndex chunk\<rparr>]))"

definition DownloadFile ::
  "string \<Rightarrow> Metadata \<Rightarrow> (error + DownloadFileResponse) \<times> Metadata" where
  "DownloadFile filename m =
     (case GetFile filename m of
        None \<Rightarrow> (Inl (FileNotFound filename), m)
      | Some file \<Rightarrow>
          (case DownloadFile_loop m (Chunks (file_heap m file)) [] of
             Inl e \<Rightarrow> (Inl e, m)
           | Inr chunkLocations \<Rightarrow>
               (Inr \<lparr>resp_Filesize = Filesize (file_heap m file),
                     resp_ChunkLocation = chunkLocations\<rparr>, m)))"


definition Heartbeat :: "string \<Rightarrow> string list \<Rightarrow> time \<Rightarrow> Metadata \<Rightarrow> bool \<times> Metadata" where
  "Heartbeat chunkServerAddress chunkHandles now m =
     (True, RegisterChunkServer chunkServerAddress chunkHandles now m)"

definition ReportChunk :: "string \<Rightarrow> string \<Rightarrow> Metadata \<Rightarrow> bool \<times> Metadata" where
  "ReportChunk chunkHandle chunkServerAddress m =
     (True, AddChunkLocation chunkHandle chunkServerAddress m)"

section \<open>The chunk server's storage (chunkserver/storage.go)\<close>

text \<open>
  \<open>chunks\<close> of the source is a \<open>map[string]bool\<close> (here \<open>st_chunks\<close>): reading a key
  that is absent gives \<open>false\<close>. The files of the node's file system are \<open>disk\<close>, by
  path. \<open>filepath.Join\<close> is not code of the repository and is a parameter \<open>Join\<close>.
\<close>

record Storage =
  storagePath :: string
  st_chunks :: "string \<rightharpoonup> bool"
  disk :: "string \<rightharpoonup> byte list"

definition index_bool :: "(string \<rightharpoonup> bool) \<Rightarrow> string \<Rightarrow> bool" where
  "index_bool mp k = (case mp k of None \<Rightarrow> False | Some b \<Rightarrow> b)"

text \<open>
  What \<open>os.WriteFile\<close> does is decided outside the program: it writes the file, or it
  fails and leaves at the path what \<open>residue\<close> says (nothing, or some bytes).
\<close>

datatype write_outcome = WriteOk | WriteFails "byte list option"

definition WriteChunk ::
  "(string \<Rightarrow> string \<Rightarrow> string) \<Rightarrow> write_outcome \<Rightarrow> string \<Rightarrow> byte list \<Rightarrow> Storage
     \<Rightarrow> error option \<times> Storage" where
  "WriteChunk Join io chunkHandle data s =
     (let chunkPath = Join (storagePath s) chunkHandle
      in case io of
           WriteFails residue \<Rightarrow>
             (Some WriteChunkToDiskFailed, s\<lparr>disk := (disk s)(chunkPath := residue)\<rparr>)
         | WriteOk \<Rightarrow>
             (None, s\<lparr>disk := (disk s)(chunkPath \<mapsto> data),
                      st_chunks := (st_chunks s)(chunkHandle \<mapsto> True)\<rparr>))"

definition ReadChunk ::
  "(string \<Rightarrow> string \<Rightarrow> string) \<Rightarrow> string \<Rightarrow> Storage \<Rightarrow> error + byte list" where
  "ReadChunk Join chunkHandle s =
     (if \<not> index_bool (st_chunks s) chunkHandle then Inl (ChunkNotFound chunkHandle)
      else (let chunkPath = Join (storagePath s) chunkHandle
            in case disk s chunkPath of
                 None \<Rightarrow> Inl ReadChunkFailed
               | Some data \<Rightarrow> Inr data))"

definition HasChunk :: "string \<Rightarrow> Storage \<Rightarrow> bool" where
  "HasChunk chunkHandle s = index_bool (st_chunks s) chunkHandle"

definition ListChunks :: "string list \<Rightarrow> Storage \<Rightarrow> string list" where
  "ListChunks order s = filter (\<lambda>chunkHandle. st_chunks s chunkHandle \<noteq> None) order"

definition DeleteChunk ::
  "(string \<Rightarrow> string \<Rightarrow> string) \<Rightarrow> string \<Rightarrow> Storage \<Rightarrow> error option \<times> Storage" where
  "DeleteChunk Join chunkHandle s =
     (let chunkPath = Join (storagePath s) chunkHandle
      in case disk s chunkPath of
           None \<Rightarrow> (Some DeleteChunkFailed, s)
         | Some _ \<Rightarrow>
             (None, s\<lparr>disk := (disk s)(chunkPath := None),
                      st_chunks := (st_chunks s)(chunkHandle := None)\<rparr>))"

section \<open>The running system\<close>

text \<open>
  One master and, behind every address, a chunk server with its storage. What the
  network and the disks do during a client operation is read from \<open>Net\<close>: whether the
  master answers, whether the chunk server at an address answers, what \<open>os.WriteFile\<close>
  does on a node for a handle, and whether the report that a node sends for a handle
  reaches the master. The chunk server sends that report from a goroutine of its own; here
  a report that arrives is applied at once, and one that does not is lost.
\<close>

record System =
  master :: Metadata
  nodes :: "string \<Rightarrow> Storage"

record Net =
  master_up :: bool
  up :: "string \<Rightarrow> bool"
  disk_io :: "string \<Rightarrow> string \<Rightarrow> write_outcome"
  report_arrives :: "string \<Rightarrow> string \<Rightarrow> bool"

definition MasterAddress :: string where
  "MasterAddress = ''localhost:8000''"

subsection \<open>chunkserver/server.go\<close>

definition reportChunkToMaster :: "Net \<Rightarrow> string \<Rightarrow> string \<Rightarrow> System \<Rightarrow> System" where
  "reportChunkToMaster net address chunkHandle sys =
     (if master_up net \<and> report_arrives net address chunkHandle
      then sys\<lparr>master := snd (ReportChunk chunkHandle address (master sys))\<rparr>
      else sys)"

definition Server_WriteChunk ::
  "(string \<Rightarrow> string \<Rightarrow> string) \<Rightarrow> Net \<Rightarrow> string \<Rightarrow> string \<Rightarrow> byte list \<Rightarrow> System
     \<Rightarrow> error option \<times> System" where
  "Server_WriteChunk Join net address chunkHandle data sys =
     (case WriteChunk Join (disk_io net address chunkHandle) chunkHandle data (nodes sys address) of
        (Some err, st) \<Rightarrow> (Some err, sys\<lparr>nodes := (nodes sys)(address := st)\<rparr>)
      | (None, st) \<Rightarrow>
          (None, reportChunkToMaster net address chunkHandle
                   (sys\<lparr>nodes := (nodes sys)(address := st)\<rparr>)))"


subsection \<open>client/client.go\<close>

definition writeChunkToServer ::
  "(string \<Rightarrow> string \<Rightarrow> string) \<Rightarrow> Net \<Rightarrow> string \<Rightarrow> string \<Rightarrow> byte list \<Rightarrow> System
     \<Rightarrow> error option \<times> System" where
  "writeChunkToServer Join net serverAddr chunkHandle data sys =
     (if \<not> up net serverAddr then (Some (Unavailable serverAddr), sys)
      else Server_WriteChunk Join net serverAddr chunkHandle data sys)"

text \<open>The loop over the replicas of one chunk: a failed write is logged and skipped.\<close>

fun uploadChunk_loop ::
  "(string \<Rightarrow> string \<Rightarrow> string) \<Rightarrow> Net \<Rightarrow> string \<Rightarrow> byte list \<Rightarrow> string list \<Rightarrow> System
     \<Rightarrow> System" where
  "uploadChunk_loop Join net chunkHandle chunkData [] sys = sys"
| "uploadChunk_loop Join net chunkHandle chunkData (serverAddr # rest) sys =
     (case writeChunkToServer Join net serverAddr chunkHandle chunkData sys of
        (Some err, sys') \<Rightarrow> uploadChunk_loop Join net chunkHandle chunkData rest sys'
      | (None, sys') \<Rightarrow> uploadChunk_loop Join net chunkHandle chunkData rest sys')"

text \<open>The slice expression \<open>fileData[start:end]\<close> panics outside \<open>0 \<le> start \<le> end \<le> len\<close>.\<close>

definition slice_bytes :: "byte list \<Rightarrow> int \<Rightarrow> int \<Rightarrow> error + byte list" where
  "slice_bytes fileData start end' =
     (if 0 \<le> start \<and> start \<le> end' \<and> end' \<le> int (length fileData)
      then Inr (take (nat end' - nat start) (drop (nat start) fileData))
      else Inl (Panic ''slice bounds out of range''))"

definition uploadChunk ::
  "(string \<Rightarrow> string \<Rightarrow> string) \<Rightarrow> Net \<Rightarrow> byte list \<Rightarrow> ChunkLocation \<Rightarrow> System
     \<Rightarrow> error option \<times> System" where
  "uploadChunk Join net fileData chunkLoc sys =
     (let chunkIndex = loc_ChunkIndex chunkLoc;
          start = chunkIndex * ChunkSize;
          end' = min (start + ChunkSize) (int (length fileData))
      in case slice_bytes fileData start end' of
           Inl p \<Rightarrow> (Some p, sys)
         | Inr chunkData \<Rightarrow>
             (None, uploadChunk_loop Join net (loc_ChunkHandle chunkLoc) chunkData
                      (loc_ChunkServerAddresses chunkLoc) sys))"

fun Client_UploadFile_loop ::
  "(string \<Rightarrow> string \<Rightarrow> string) \<Rightarrow> Net \<Rightarrow> byte list \<Rightarrow> ChunkLocation list \<Rightarrow> System
     \<Rightarrow> error option \<times> System" where
  "Client_UploadFile_loop Join net data [] sys = (None, sys)"
| "Client_UploadFile_loop Join net data (chunkLoc # rest) sys =
     (case uploadChunk Join net data chunkLoc sys of
        (Some (Panic p), sys') \<Rightarrow> (Some (Panic p), sys')
      | (Some err, sys') \<Rightarrow> (Some (UploadChunkFailed (loc_ChunkIndex chunkLoc) err), sys')
      | (None, sys') \<Rightarrow> Client_UploadFile_loop Join net data rest sys')"

text \<open>
  \<open>Client.UploadFile\<close>: \<open>local\<close> is what \<open>os.ReadFile\<close> gives for the local path,
  \<open>None\<close> when it fails. The result is \<open>None\<close> when the function returns \<open>nil\<close>.
\<close>

definition Client_UploadFile ::
  "(string \<Rightarrow> byte list) \<Rightarrow> (string \<Rightarrow> string \<Rightarrow> string) \<Rightarrow> Net \<Rightarrow> UploadEnv
     \<Rightarrow> byte list option \<Rightarrow> string \<Rightarrow> System \<Rightarrow> error option \<times> System" where
  "Client_UploadFile sha256 Join net env local remoteName sys =
     (case local of
        None \<Rightarrow> (Some ReadLocalFileFailed, sys)
      | Some data \<Rightarrow>
          (let filesize = int (length data)
           in if \<not> master_up net then (Some (RequestUploadFailed (Unavailable MasterAddress)), sys)
              else (case UploadFile sha256 env remoteName filesize (master sys) of
                      (Inl err, m') \<Rightarrow> (Some (RequestUploadFailed err), sys\<lparr>master := m'\<rparr>)
                    | (Inr chunkLocations, m') \<Rightarrow>
                        Client_UploadFile_loop Join net data chunkLocations
                          (sys\<lparr>master := m'\<rparr>))))"







section \<open>Notions used by the statements\<close>

text \<open>The handles that \<open>UploadFile\<close> derives for the first \<open>n\<close> chunks of a file.\<close>

definition handles_upto :: "(string \<Rightarrow> byte list) \<Rightarrow> string \<Rightarrow> nat \<Rightarrow> string list" where
  "handles_upto sha256 filename n = map (\<lambda>i. GenerateChunkHandle sha256 filename (int i)) [0..<n]"

text \<open>The \<open>ChunkLocation\<close> that \<open>DownloadFile\<close> builds for a handle that has a chunk record.\<close>

definition placement :: "Metadata \<Rightarrow> string \<Rightarrow> ChunkLocation" where
  "placement m chunkHandle =
     \<lparr>loc_ChunkHandle = chunkHandle,
      loc_ChunkServerAddresses = Locations (the (GetChunk chunkHandle m)),
      loc_ChunkIndex = ChunkIndex (the (GetChunk chunkHandle m))\<rparr>"

text \<open>The test that \<open>GetAvailableChunkServers\<close> applies to a key of \<open>chunkServers\<close>.\<close>

definition is_live :: "(string \<rightharpoonup> ChunkServerInfo) \<Rightarrow> time \<Rightarrow> string \<Rightarrow> bool" where
  "is_live css now address =
     (case css address of
        None \<Rightarrow> False
      | Some server \<Rightarrow> Sub now (LatestHeartbeat server) < 30 * Second)"

text \<open>What a caller that holds pointers to file records reads through them.\<close>

definition deref_all :: "Metadata \<Rightarrow> nat list \<Rightarrow> FileMetadata list" where
  "deref_all m ptrs = map (file_heap m) ptrs"

text \<open>
  The addresses that \<open>UploadFile\<close> assigns at round \<open>i\<close>, the placement it emits and the
  chunk record it creates there.
\<close>

definition replicas :: "UploadEnv \<Rightarrow> Metadata \<Rightarrow> nat \<Rightarrow> string list" where
  "replicas env m i =
     take 3 (filter (is_live (chunkServers m) (round_now env i)) (round_order env i))"

definition allocation ::
  "(string \<Rightarrow> byte list) \<Rightarrow> UploadEnv \<Rightarrow> string \<Rightarrow> Metadata \<Rightarrow> nat \<Rightarrow> ChunkLocation" where
  "allocation sha256 env filename m i =
     \<lparr>loc_ChunkHandle = GenerateChunkHandle sha256 filename (int i),
      loc_ChunkServerAddresses = replicas env m i,
      loc_ChunkIndex = int32 (int i)\<rparr>"

definition fresh_chunk :: "(string \<Rightarrow> byte list) \<Rightarrow> string \<Rightarrow> nat \<Rightarrow> ChunkMetadata" where
  "fresh_chunk sha256 filename i =
     \<lparr>ChunkHandle = GenerateChunkHandle sha256 filename (int i), Locations = [], Version = 1,
      ChunkFilename = filename, ChunkIndex = int32 (int i)\<rparr>"





text \<open>
  Every pointer of \<open>files\<close> is allocated, and no chunk lists an address twice: this holds
  for the empty metadata and every handler keeps it.
\<close>

definition wellformed :: "Metadata \<Rightarrow> bool" where
  "wellformed m \<longleftrightarrow>
     (\<forall>name p. files m name = Some p \<longrightarrow> p < next_ref m)
   \<and> (\<forall>h c. chunks m h = Some c \<longrightarrow> distinct (Locations c))"

subsection \<open>Concrete inputs\<close>

text \<open>
  A stand-in digest (the bytes of its input), an environment with a fixed clock, and the
  metadata after some calls; the examples below run the code on them.
\<close>

definition example_sha256 :: "string \<Rightarrow> byte list" where
  "example_sha256 data = map (\<lambda>c. of_nat (of_char c)) data"

definition example_env :: UploadEnv where
  "example_env = \<lparr>created = 0, round_now = (\<lambda>_. 0), round_order = (\<lambda>_. [''n1''])\<rparr>"

definition example_master :: Metadata where
  "example_master = snd (UploadFile example_sha256 example_env ''f'' 5 NewMetadata)"

definition example_broken :: Metadata where
  "example_broken = AddChunkToFile ''g'' ''0123'' (projr (AddFile ''g'' 5 1 0 NewMetadata))"

definition example_cluster :: Metadata where
  "example_cluster = snd (Heartbeat ''n1'' [] 90 NewMetadata)"

definition example_Join :: "string \<Rightarrow> string \<Rightarrow> string" where
  "example_Join dir name = dir @ ''/'' @ name"

definition example_storage :: Storage where
  "example_storage = \<lparr>storagePath = ''storage1'', st_chunks = Map.empty, disk = Map.empty\<rparr>"

definition example_net_down :: Net where
  "example_net_down = \<lparr>master_up = True, up = (\<lambda>_. False), disk_io = (\<lambda>_ _. WriteOk),
      report_arrives = (\<lambda>_ _. True)\<rparr>"

definition example_nodes :: "string \<Rightarrow> Storage" where
  "example_nodes address = \<lparr>storagePath = address, st_chunks = Map.empty, disk = Map.empty\<rparr>"

definition example_system :: System where
  "example_system = \<lparr>master = example_cluster, nodes = example_nodes\<rparr>"

definition example_env100 :: UploadEnv where
  "example_env100 = \<lparr>created = 100, round_now = (\<lambda>_. 100), round_order = (\<lambda>_. [''n1''])\<rparr>"


section \<open>Chunk counts and allocation\<close>

lemma ChunkSize_pos: "0 < ChunkSize"
  by (simp add: ChunkSize_def)

lemma go_quot_nonneg: "0 \<le> a \<Longrightarrow> 0 < b \<Longrightarrow> go_quot a b = a div b"
  by (cases "a = 0") (simp_all add: go_quot_def)

lemma go_rem_nonneg: "0 \<le> a \<Longrightarrow> 0 < b \<Longrightarrow> go_rem a b = a mod b"
  by (simp add: go_rem_def go_quot_nonneg minus_mult_div_eq_mod)

lemma CalculateNumChunks_nonneg:
  assumes "0 \<le> filesize"
  shows "CalculateNumChunks filesize = - ((- filesize) div ChunkSize)"
proof -
  have pos: "0 < ChunkSize" by (rule ChunkSize_pos)
  show ?thesis
  proof (cases "filesize mod ChunkSize = 0")
    case True
    then have "ChunkSize dvd filesize" by auto
    then have "(- filesize) div ChunkSize = - (filesize div ChunkSize)"
      by (simp add: dvd_neg_div)
    with True assms pos show ?thesis
      by (simp add: CalculateNumChunks_def go_quot_nonneg go_rem_nonneg)
  next
    case False
    then have "\<not> ChunkSize dvd filesize" by (simp add: dvd_eq_mod_eq_0)
    then have "(- filesize) div ChunkSize = - (filesize div ChunkSize) - 1"
      using pos False by (simp add: zdiv_zminus1_eq_if)
    with False assms pos show ?thesis
      by (simp add: CalculateNumChunks_def go_quot_nonneg go_rem_nonneg)
  qed
qed

lemma CalculateNumChunks_ceiling:
  "0 \<le> filesize \<Longrightarrow> CalculateNumChunks filesize = \<lceil>real_of_int filesize / real_of_int ChunkSize\<rceil>"
  by (simp add: CalculateNumChunks_nonneg ceiling_divide_eq_div)

lemma CalculateNumChunks_ge0: "0 \<le> filesize \<Longrightarrow> 0 \<le> CalculateNumChunks filesize"
  using ChunkSize_pos by (simp add: CalculateNumChunks_def go_quot_nonneg go_rem_nonneg pos_imp_zdiv_nonneg_iff Let_def)

lemma GetAvailableChunkServers_ReplicationFactor:
  "GetAvailableChunkServers ReplicationFactor now order m =
     Inr (GetAvailableChunkServers_loop (chunkServers m) now ReplicationFactor order [])"
  by (simp add: GetAvailableChunkServers_def ReplicationFactor_def)

lemma handles_upto_Suc: "handles_upto sha256 filename (Suc n) = handles_upto sha256 filename n @ [GenerateChunkHandle sha256 filename (int n)]"
  by (simp add: handles_upto_def)

lemma UploadFile_loop_Inr:
  "\<exists>locs m'. UploadFile_loop sha256 env filename n m = Inr (locs, m')
      \<and> length locs = n
      \<and> files m' = files m \<and> next_ref m' = next_ref m \<and> chunkServers m' = chunkServers m
      \<and> file_heap m' = (case files m filename of None \<Rightarrow> file_heap m
           | Some p \<Rightarrow> (file_heap m)(p := (file_heap m p)\<lparr>Chunks := Chunks (file_heap m p) @ handles_upto sha256 filename n\<rparr>))"
proof (induction n)
  case 0
  show ?case by (simp add: handles_upto_def split: option.splits)
next
  case (Suc n)
  then obtain locs m1 where
    1: "UploadFile_loop sha256 env filename n m = Inr (locs, m1)" and
    2: "length locs = n" "files m1 = files m" "next_ref m1 = next_ref m" "chunkServers m1 = chunkServers m" and
    3: "file_heap m1 = (case files m filename of None \<Rightarrow> file_heap m
           | Some p \<Rightarrow> (file_heap m)(p := (file_heap m p)\<lparr>Chunks := Chunks (file_heap m p) @ handles_upto sha256 filename n\<rparr>))"
    by blast
  show ?case
    using 1 2 3
    by (simp add: GetAvailableChunkServers_ReplicationFactor Let_def AddChunk_def AddChunkToFile_def handles_upto_Suc split: option.splits)
qed

lemma UploadFile_ok:
  assumes "0 \<le> CalculateNumChunks filesize"
  shows "\<exists>locs m'. UploadFile sha256 env filename filesize m = (Inr locs, m')
     \<and> int (length locs) = CalculateNumChunks filesize
     \<and> files m' = (files m)(filename \<mapsto> next_ref m)
     \<and> next_ref m' = Suc (next_ref m)
     \<and> chunkServers m' = chunkServers m
     \<and> file_heap m' = (file_heap m)(next_ref m :=
          \<lparr>Filename = filename, Filesize = filesize, ChunkCount = CalculateNumChunks filesize,
           Chunks = handles_upto sha256 filename (nat (CalculateNumChunks filesize)), CreatedAt = created env\<rparr>)"
proof -
  let ?n = "CalculateNumChunks filesize"
  have n0: "0 \<le> ?n" using assms .
  obtain m1 where m1: "AddFile filename filesize ?n (created env) m = Inr m1"
    and m1_def: "m1 = m\<lparr>files := (files m)(filename \<mapsto> next_ref m),
                  file_heap := (file_heap m)(next_ref m :=
                     \<lparr>Filename = filename, Filesize = filesize, ChunkCount = ?n,
                      Chunks = [], CreatedAt = created env\<rparr>),
                  next_ref := Suc (next_ref m)\<rparr>"
    using n0 by (simp add: AddFile_def)
  from UploadFile_loop_Inr [of sha256 env filename "nat ?n" m1]
  obtain locs m2 where
    l: "UploadFile_loop sha256 env filename (nat ?n) m1 = Inr (locs, m2)"
       "length locs = nat ?n" "files m2 = files m1" "next_ref m2 = next_ref m1"
       "chunkServers m2 = chunkServers m1"
       "file_heap m2 = (case files m1 filename of None \<Rightarrow> file_heap m1
           | Some p \<Rightarrow> (file_heap m1)(p := (file_heap m1 p)\<lparr>Chunks := Chunks (file_heap m1 p) @ handles_upto sha256 filename (nat ?n)\<rparr>))"
    by blast
  have "UploadFile sha256 env filename filesize m = (Inr locs, m2)"
    using m1 l(1) by (simp add: UploadFile_def)
  moreover have "int (length locs) = ?n" using l(2) n0 by simp
  moreover have "file_heap m2 = (file_heap m)(next_ref m :=
          \<lparr>Filename = filename, Filesize = filesize, ChunkCount = ?n,
           Chunks = handles_upto sha256 filename (nat ?n), CreatedAt = created env\<rparr>)"
    using l(6) by (simp add: m1_def)
  ultimately show ?thesis using l(3,4,5) by (simp add: m1_def)
qed

lemma length_handles_upto: "length (handles_upto sha256 filename n) = n"
  by (simp add: handles_upto_def)

text \<open>
  Claim C2. For every \<open>UploadFile(name, size)\<close> call with \<open>size \<ge> 0\<close>, the call succeeds
  and the file record it creates has \<open>chunk_count = ceil(size / CHUNK_SIZE)\<close>, with
  \<open>CHUNK_SIZE = 67,108,864\<close>; the file's chunks list has exactly \<open>chunk_count\<close> entries
  when the call returns; a size of zero gives \<open>chunk_count\<close> 0 and an empty chunks list.
\<close>

theorem C2_chunk_count:
  assumes "0 \<le> filesize"
  shows "\<exists>chunkLocations m' file.
      UploadFile sha256 env filename filesize m = (Inr chunkLocations, m')
    \<and> GetFile filename m' = Some file
    \<and> Filesize (file_heap m' file) = filesize
    \<and> ChunkCount (file_heap m' file) = \<lceil>real_of_int filesize / real_of_int ChunkSize\<rceil>
    \<and> ChunkSize = 67108864
    \<and> int (length (Chunks (file_heap m' file))) = ChunkCount (file_heap m' file)
    \<and> (filesize = 0 \<longrightarrow> ChunkCount (file_heap m' file) = 0 \<and> Chunks (file_heap m' file) = [])"
proof -
  from UploadFile_ok [OF CalculateNumChunks_ge0 [OF assms], of sha256 env filename m]
  obtain locs m' where
    u: "UploadFile sha256 env filename filesize m = (Inr locs, m')"
       "files m' = (files m)(filename \<mapsto> next_ref m)"
       "file_heap m' = (file_heap m)(next_ref m :=
          \<lparr>Filename = filename, Filesize = filesize, ChunkCount = CalculateNumChunks filesize,
           Chunks = handles_upto sha256 filename (nat (CalculateNumChunks filesize)), CreatedAt = created env\<rparr>)"
    by blast
  have z: "CalculateNumChunks 0 = 0"
    by (simp add: CalculateNumChunks_def go_quot_def go_rem_def)
  have "GetFile filename m' = Some (next_ref m)"
    using u(2) by (simp add: GetFile_def)
  moreover have "ChunkCount (file_heap m' (next_ref m)) = \<lceil>real_of_int filesize / real_of_int ChunkSize\<rceil>"
    using u(3) assms by (simp add: CalculateNumChunks_ceiling)
  moreover have "int (length (Chunks (file_heap m' (next_ref m)))) = ChunkCount (file_heap m' (next_ref m))"
    using u(3) CalculateNumChunks_ge0 [OF assms] by (simp add: length_handles_upto)
  moreover have "filesize = 0 \<longrightarrow> ChunkCount (file_heap m' (next_ref m)) = 0 \<and> Chunks (file_heap m' (next_ref m)) = []"
    using u(3) z by (simp add: handles_upto_def)
  moreover have "ChunkSize = 67108864" by (simp add: ChunkSize_def)
  moreover have "Filesize (file_heap m' (next_ref m)) = filesize" using u(3) by simp
  ultimately show ?thesis using u(1) by blast
qed

lemma CalculateNumChunks_small_negative:
  assumes "- ChunkSize < filesize" "filesize < 0"
  shows "CalculateNumChunks filesize = 1"
proof -
  have "\<bar>filesize\<bar> div \<bar>ChunkSize\<bar> = 0"
    using assms ChunkSize_pos by (simp add: div_pos_pos_trivial)
  then show ?thesis
    using assms by (simp add: CalculateNumChunks_def go_quot_def go_rem_def)
qed

text \<open>
  Claim C5, as amended. \<open>UploadFile\<close> validates neither argument and has no
  \<open>InvalidArgument\<close> failure. A request with an empty name and a size \<open>\<ge> 0\<close> succeeds and
  creates a file record under the empty name, with \<open>ceil(size / CHUNK_SIZE)\<close> placements
  and as many handles in the record. A request with a negative size above
  \<open>- CHUNK_SIZE\<close> succeeds too, and creates a file record of that size with one chunk.
\<close>

theorem C5_no_validation:
  "(0 \<le> filesize \<longrightarrow>
      (\<exists>chunkLocations m' file.
         UploadFile sha256 env [] filesize m = (Inr chunkLocations, m')
       \<and> GetFile [] m' = Some file
       \<and> Filename (file_heap m' file) = []
       \<and> int (length chunkLocations) = \<lceil>real_of_int filesize / real_of_int ChunkSize\<rceil>
       \<and> length (Chunks (file_heap m' file)) = length chunkLocations))
 \<and> (- ChunkSize < filesize \<and> filesize < 0 \<longrightarrow>
      (\<exists>chunkLocations m' file.
         UploadFile sha256 env filename filesize m = (Inr chunkLocations, m')
       \<and> GetFile filename m' = Some file
       \<and> Filesize (file_heap m' file) = filesize
       \<and> ChunkCount (file_heap m' file) = 1
       \<and> length chunkLocations = 1))"
proof (intro conjI impI)
  assume nn: "0 \<le> filesize"
  from UploadFile_ok [OF CalculateNumChunks_ge0 [OF nn], of sha256 env "[]" m]
  obtain locs m' where
    u: "UploadFile sha256 env [] filesize m = (Inr locs, m')"
       "int (length locs) = CalculateNumChunks filesize"
       "files m' = (files m)([] \<mapsto> next_ref m)"
       "file_heap m' = (file_heap m)(next_ref m :=
          \<lparr>Filename = [], Filesize = filesize, ChunkCount = CalculateNumChunks filesize,
           Chunks = handles_upto sha256 [] (nat (CalculateNumChunks filesize)), CreatedAt = created env\<rparr>)"
    by blast
  have "GetFile [] m' = Some (next_ref m)" using u(3) by (simp add: GetFile_def)
  moreover have "Filename (file_heap m' (next_ref m)) = []" using u(4) by simp
  moreover have "int (length locs) = \<lceil>real_of_int filesize / real_of_int ChunkSize\<rceil>"
    using u(2) nn by (simp add: CalculateNumChunks_ceiling)
  moreover have "length (Chunks (file_heap m' (next_ref m))) = length locs"
    using u(2,4) by (simp add: length_handles_upto)
  ultimately show "\<exists>chunkLocations m' file.
         UploadFile sha256 env [] filesize m = (Inr chunkLocations, m')
       \<and> GetFile [] m' = Some file
       \<and> Filename (file_heap m' file) = []
       \<and> int (length chunkLocations) = \<lceil>real_of_int filesize / real_of_int ChunkSize\<rceil>
       \<and> length (Chunks (file_heap m' file)) = length chunkLocations"
    using u(1) by blast
next
  assume "- ChunkSize < filesize \<and> filesize < 0"
  then have one: "CalculateNumChunks filesize = 1"
    by (simp add: CalculateNumChunks_small_negative)
  then have "0 \<le> CalculateNumChunks filesize" by simp
  from UploadFile_ok [OF this, of sha256 env filename m]
  obtain locs m' where
    u: "UploadFile sha256 env filename filesize m = (Inr locs, m')"
       "int (length locs) = CalculateNumChunks filesize"
       "files m' = (files m)(filename \<mapsto> next_ref m)"
       "file_heap m' = (file_heap m)(next_ref m :=
          \<lparr>Filename = filename, Filesize = filesize, ChunkCount = CalculateNumChunks filesize,
           Chunks = handles_upto sha256 filename (nat (CalculateNumChunks filesize)), CreatedAt = created env\<rparr>)"
    by blast
  have "GetFile filename m' = Some (next_ref m)" using u(3) by (simp add: GetFile_def)
  moreover have "Filesize (file_heap m' (next_ref m)) = filesize" using u(4) by simp
  moreover have "ChunkCount (file_heap m' (next_ref m)) = 1" using u(4) one by simp
  moreover have "length locs = 1" using u(2) one by simp
  ultimately show "\<exists>chunkLocations m' file.
         UploadFile sha256 env filename filesize m = (Inr chunkLocations, m')
       \<and> GetFile filename m' = Some file
       \<and> Filesize (file_heap m' file) = filesize
       \<and> ChunkCount (file_heap m' file) = 1
       \<and> length chunkLocations = 1"
    using u(1) by blast
qed

lemmas eval_upload = UploadFile_def CalculateNumChunks_def go_quot_def go_rem_def ChunkSize_def
  AddFile_def NewMetadata_def GetAvailableChunkServers_ReplicationFactor Let_def AddChunk_def
  AddChunkToFile_def example_env_def GetFile_def

text \<open>
  Claim C5 as stated fails: \<open>UploadFile\<close> with an empty name and size 5, and with the
  name \<open>f\<close> and size \<open>-1\<close>, on the empty metadata, both return a placement and leave
  a file record (and, for the first, a chunk record).
\<close>

theorem C5_counterexample:
  "fst (UploadFile example_sha256 example_env [] 5 NewMetadata) =
     Inr [\<lparr>loc_ChunkHandle = GenerateChunkHandle example_sha256 [] 0,
           loc_ChunkServerAddresses = [], loc_ChunkIndex = 0\<rparr>]
   \<and> files (snd (UploadFile example_sha256 example_env [] 5 NewMetadata)) [] = Some 0
   \<and> chunks (snd (UploadFile example_sha256 example_env [] 5 NewMetadata))
        (GenerateChunkHandle example_sha256 [] 0) \<noteq> None
   \<and> fst (UploadFile example_sha256 example_env ''f'' (- 1) NewMetadata) =
     Inr [\<lparr>loc_ChunkHandle = GenerateChunkHandle example_sha256 ''f'' 0,
           loc_ChunkServerAddresses = [], loc_ChunkIndex = 0\<rparr>]
   \<and> files (snd (UploadFile example_sha256 example_env ''f'' (- 1) NewMetadata)) ''f'' = Some 0"
  by (simp add: eval_upload int32_def)

text \<open>The amended claim C5 at an empty name with size 5, and at size \<open>-1\<close>.\<close>

theorem C5_no_validation_witness:
  "(\<exists>chunkLocations m' file.
         UploadFile example_sha256 example_env [] 5 NewMetadata = (Inr chunkLocations, m')
       \<and> GetFile [] m' = Some file
       \<and> Filename (file_heap m' file) = []
       \<and> int (length chunkLocations) = \<lceil>real_of_int 5 / real_of_int ChunkSize\<rceil>
       \<and> length (Chunks (file_heap m' file)) = length chunkLocations)
  \<and> (\<exists>chunkLocations m' file.
         UploadFile example_sha256 example_env ''f'' (- 1) NewMetadata = (Inr chunkLocations, m')
       \<and> GetFile ''f'' m' = Some file
       \<and> Filesize (file_heap m' file) = - 1
       \<and> ChunkCount (file_heap m' file) = 1
       \<and> length chunkLocations = 1)"
  using C5_no_validation [of 5 example_sha256 example_env NewMetadata "''f''"]
        C5_no_validation [of "- 1" example_sha256 example_env NewMetadata "''f''"]
  by (simp add: ChunkSize_def)

text \<open>A negative size that is a multiple of the chunk size makes \<open>AddFile\<close> panic.\<close>

lemma UploadFile_minus_ChunkSize_panics:
  "UploadFile sha256 env filename (- ChunkSize) m = (Inl (Panic ''makeslice: cap out of range''), m)"
  by (simp add: UploadFile_def CalculateNumChunks_def go_quot_def go_rem_def AddFile_def ChunkSize_def)


text \<open>Claim C2 at size 0 and at one byte more than a chunk.\<close>

theorem C2_chunk_count_witness:
  "(\<exists>chunkLocations m' file.
      UploadFile example_sha256 example_env ''f'' 0 NewMetadata = (Inr chunkLocations, m')
    \<and> GetFile ''f'' m' = Some file
    \<and> ChunkCount (file_heap m' file) = 0 \<and> Chunks (file_heap m' file) = [])
  \<and> (\<exists>chunkLocations m' file.
      UploadFile example_sha256 example_env ''f'' 67108865 NewMetadata = (Inr chunkLocations, m')
    \<and> GetFile ''f'' m' = Some file
    \<and> ChunkCount (file_heap m' file) = 2 \<and> length (Chunks (file_heap m' file)) = 2)"
proof -
  have c: "\<lceil>real_of_int 67108865 / real_of_int ChunkSize\<rceil> = 2"
    by (simp add: ChunkSize_def ceiling_eq_iff)
  show ?thesis
    using C2_chunk_count [of 0 example_sha256 example_env "''f''" NewMetadata]
          C2_chunk_count [of 67108865 example_sha256 example_env "''f''" NewMetadata]
    unfolding c by auto
qed

lemma DownloadFile_loop_all_present:
  "\<forall>h \<in> set hs. GetChunk h m \<noteq> None \<Longrightarrow>
     DownloadFile_loop m hs acc = Inr (acc @ map (placement m) hs)"
  by (induction hs arbitrary: acc) (auto simp: placement_def)

lemma DownloadFile_loop_missing:
  "\<exists>h \<in> set hs. GetChunk h m = None \<Longrightarrow>
     \<exists>h \<in> set hs. GetChunk h m = None \<and> DownloadFile_loop m hs acc = Inl (ChunkNotFound h)"
proof (induction hs arbitrary: acc)
  case Nil
  then show ?case by simp
next
  case (Cons a hs)
  show ?case
  proof (cases "GetChunk a m")
    case None
    then show ?thesis by auto
  next
    case (Some c)
    with Cons.prems have "\<exists>h \<in> set hs. GetChunk h m = None" by auto
    from Cons.IH [OF this] Some show ?thesis by auto
  qed
qed

lemma DownloadFile_frame: "snd (DownloadFile filename m) = m"
  by (simp add: DownloadFile_def split: option.splits sum.splits)

text \<open>
  Claim C7. \<open>DownloadFile(name)\<close> fails with the file-not-found error when no file
  record named \<open>name\<close> exists; it fails with the chunk-not-found error (the spec's
  \<open>Internal\<close>) for a handle of the file's chunks list that has no chunk record when there
  is one; otherwise it returns the file's size and, per chunk, the locations known at the
  time, which may be empty. In every case the metadata is unchanged.
\<close>

theorem C7_DownloadFile:
  "(GetFile filename m = None \<longrightarrow> DownloadFile filename m = (Inl (FileNotFound filename), m))
 \<and> (\<forall>file. GetFile filename m = Some file \<longrightarrow>
      ((\<exists>h \<in> set (Chunks (file_heap m file)). GetChunk h m = None) \<longrightarrow>
         (\<exists>h \<in> set (Chunks (file_heap m file)). GetChunk h m = None
            \<and> DownloadFile filename m = (Inl (ChunkNotFound h), m)))
    \<and> ((\<forall>h \<in> set (Chunks (file_heap m file)). GetChunk h m \<noteq> None) \<longrightarrow>
         DownloadFile filename m =
           (Inr \<lparr>resp_Filesize = Filesize (file_heap m file),
                 resp_ChunkLocation = map (placement m) (Chunks (file_heap m file))\<rparr>, m)))
 \<and> snd (DownloadFile filename m) = m"
proof (intro conjI allI impI)
  assume "GetFile filename m = None"
  then show "DownloadFile filename m = (Inl (FileNotFound filename), m)"
    by (simp add: DownloadFile_def)
next
  fix p
  assume f: "GetFile filename m = Some p"
    and "\<exists>h \<in> set (Chunks (file_heap m p)). GetChunk h m = None"
  from DownloadFile_loop_missing [OF this(2), of "[]"]
  obtain h where "h \<in> set (Chunks (file_heap m p))" "GetChunk h m = None"
    "DownloadFile_loop m (Chunks (file_heap m p)) [] = Inl (ChunkNotFound h)"
    by blast
  then show "\<exists>h \<in> set (Chunks (file_heap m p)). GetChunk h m = None
            \<and> DownloadFile filename m = (Inl (ChunkNotFound h), m)"
    using f by (auto simp: DownloadFile_def)
next
  fix p
  assume f: "GetFile filename m = Some p"
    and "\<forall>h \<in> set (Chunks (file_heap m p)). GetChunk h m \<noteq> None"
  from DownloadFile_loop_all_present [OF this(2), of "[]"] f
  show "DownloadFile filename m =
           (Inr \<lparr>resp_Filesize = Filesize (file_heap m p),
                 resp_ChunkLocation = map (placement m) (Chunks (file_heap m p))\<rparr>, m)"
    by (simp add: DownloadFile_def)
next
  show "snd (DownloadFile filename m) = m" by (rule DownloadFile_frame)
qed

lemma example_master_eq:
  "example_master =
     \<lparr>files = [''f'' \<mapsto> 0],
      file_heap = (file_heap NewMetadata)(0 := \<lparr>Filename = ''f'', Filesize = 5, ChunkCount = 1,
                    Chunks = [GenerateChunkHandle example_sha256 ''f'' 0], CreatedAt = 0\<rparr>),
      next_ref = Suc 0,
      chunks = [GenerateChunkHandle example_sha256 ''f'' 0 \<mapsto>
            \<lparr>ChunkHandle = GenerateChunkHandle example_sha256 ''f'' 0,
               Locations = [], Version = 1, ChunkFilename = ''f'', ChunkIndex = 0\<rparr>],
      chunkServers = Map.empty\<rparr>"
  by (simp add: example_master_def eval_upload int32_def)

text \<open>Claim C7 on a missing file, on a file whose handle has no chunk record, and on a sound file.\<close>

theorem C7_DownloadFile_witness:
  "DownloadFile ''nope'' example_master = (Inl (FileNotFound ''nope''), example_master)
 \<and> DownloadFile ''g'' example_broken = (Inl (ChunkNotFound ''0123''), example_broken)
 \<and> DownloadFile ''f'' example_master =
      (Inr \<lparr>resp_Filesize = 5,
            resp_ChunkLocation = [\<lparr>loc_ChunkHandle = GenerateChunkHandle example_sha256 ''f'' 0,
               loc_ChunkServerAddresses = [], loc_ChunkIndex = 0\<rparr>]\<rparr>, example_master)"
  using C7_DownloadFile [of "''nope''" example_master]
        C7_DownloadFile [of "''g''" example_broken]
        C7_DownloadFile [of "''f''" example_master]
  by (simp add: example_master_eq example_broken_def GetFile_def GetChunk_def placement_def
        AddFile_def AddChunkToFile_def NewMetadata_def)

text \<open>
  Claim C10. For every address and every handle for which no chunk record exists,
  \<open>ReportChunk\<close> returns \<open>Success = true\<close> and leaves all of the metadata (files, chunks,
  node registrations) unchanged.
\<close>

theorem C10_report_unknown_handle:
  assumes "GetChunk chunkHandle m = None"
  shows "ReportChunk chunkHandle address m = (True, m)"
  using assms by (simp add: ReportChunk_def AddChunkLocation_def GetChunk_def)

text \<open>Claim C10 on the empty metadata.\<close>

theorem C10_report_unknown_handle_witness:
  "GetChunk ''ffff'' NewMetadata = None \<and> ReportChunk ''ffff'' ''localhost:9001'' NewMetadata = (True, NewMetadata)"
  using C10_report_unknown_handle [of "''ffff''" NewMetadata "''localhost:9001''"]
  by (simp add: GetChunk_def NewMetadata_def)
section \<open>Choosing chunk servers\<close>

lemma Sub_less_30s: "Sub now t < 30 * Second \<longleftrightarrow> now - t < 30 * Second"
  by (simp add: Sub_def Let_def maxDuration_def minDuration_def Second_def)

lemma GetAvailableChunkServers_loop_eq:
  "GetAvailableChunkServers_loop css now k ks servers =
     servers @ take (max 1 (nat k - length servers)) (filter (is_live css now) ks)"
proof (induction ks arbitrary: servers)
  case Nil
  show ?case by simp
next
  case (Cons a ks)
  show ?case
  proof (cases "is_live css now a")
    case False
    then show ?thesis using Cons.IH [of servers]
      by (auto simp: is_live_def split: option.splits)
  next
    case True
    then obtain server where s: "css a = Some server" "Sub now (LatestHeartbeat server) < 30 * Second"
      by (auto simp: is_live_def split: option.splits)
    show ?thesis
    proof (cases "int (length (servers @ [a])) \<ge> k")
      case True
      then have "max 1 (nat k - length servers) = 1" by auto
      then show ?thesis using s True \<open>is_live css now a\<close> by (simp add: Let_def)
    next
      case False
      then have "max 1 (nat k - length servers) = Suc (max 1 (nat k - length (servers @ [a])))"
        by auto
      then show ?thesis using s False \<open>is_live css now a\<close> Cons.IH [of "servers @ [a]"]
        by (simp add: Let_def)
    qed
  qed
qed

lemma GetAvailableChunkServers_eq:
  "0 \<le> k \<Longrightarrow> GetAvailableChunkServers k now order m =
     Inr (take (max 1 (nat k)) (filter (is_live (chunkServers m) now) order))"
  by (simp add: GetAvailableChunkServers_def GetAvailableChunkServers_loop_eq)

lemma GetAvailableChunkServers_positive:
  assumes "1 \<le> k" and "iteration_of order (chunkServers m)"
  shows "\<exists>servers. GetAvailableChunkServers k now order m = Inr servers
     \<and> distinct servers
     \<and> (\<forall>a \<in> set servers. \<exists>server. chunkServers m a = Some server
            \<and> now - LatestHeartbeat server < 30 * Second)
     \<and> int (length servers) \<le> k
     \<and> length servers \<le> card {a. is_live (chunkServers m) now a}"
proof -
  let ?live = "filter (is_live (chunkServers m) now) order"
  let ?r = "take (max 1 (nat k)) ?live"
  have d: "distinct order" and s: "set order = dom (chunkServers m)"
    using assms(2) by (simp_all add: iteration_of_def)
  have eq: "GetAvailableChunkServers k now order m = Inr ?r"
    using assms(1) by (simp add: GetAvailableChunkServers_eq)
  have 1: "distinct ?r" using d by simp
  have 2: "\<forall>a \<in> set ?r. \<exists>server. chunkServers m a = Some server
            \<and> now - LatestHeartbeat server < 30 * Second"
  proof
    fix a assume "a \<in> set ?r"
    then have "a \<in> set ?live" by (rule in_set_takeD)
    then have "is_live (chunkServers m) now a" by simp
    then show "\<exists>server. chunkServers m a = Some server \<and> now - LatestHeartbeat server < 30 * Second"
      by (auto simp: is_live_def Sub_less_30s split: option.splits)
  qed
  have 3: "int (length ?r) \<le> k" using assms(1) by simp
  have "set ?live = {a. is_live (chunkServers m) now a}"
    using s by (auto simp: is_live_def split: option.splits)
  then have "length ?live = card {a. is_live (chunkServers m) now a}"
    using d distinct_card [of ?live] by simp
  then have 4: "length ?r \<le> card {a. is_live (chunkServers m) now a}" by simp
  show ?thesis using eq 1 2 3 4 by blast
qed

text \<open>
  Claim C3 at the inputs where the code leaves it. With one live node registered,
  \<open>GetAvailableChunkServers(0)\<close> returns that node, a list of length 1 and not the empty
  list: the loop tests the bound only after it has appended. With \<open>k = -1\<close> the
  allocation of the result slice panics.
\<close>

theorem C3_bound_fails_at_zero:
  "iteration_of [''n1''] (chunkServers example_cluster)
   \<and> GetAvailableChunkServers 0 100 [''n1''] example_cluster = Inr [''n1'']
   \<and> GetAvailableChunkServers (- 1) 100 [''n1''] example_cluster =
        Inl (Panic ''makeslice: cap out of range'')"
  by (simp add: example_cluster_def Heartbeat_def RegisterChunkServer_def NewMetadata_def
        iteration_of_def GetAvailableChunkServers_def Sub_def maxDuration_def minDuration_def
        Second_def Let_def)

section \<open>Allocation at upload\<close>

lemma GetAvailableChunkServers_3:
  "GetAvailableChunkServers ReplicationFactor (round_now env i) (round_order env i) m =
     Inr (replicas env m i)"
  by (simp add: GetAvailableChunkServers_eq ReplicationFactor_def replicas_def)

lemma replicas_cong: "chunkServers m' = chunkServers m \<Longrightarrow> replicas env m' i = replicas env m i"
  by (simp add: replicas_def)

lemma UploadFile_loop_locs:
  "\<exists>m'. UploadFile_loop sha256 env filename n m =
           Inr (map (allocation sha256 env filename m) [0..<n], m')"
proof (induction n)
  case 0
  show ?case by simp
next
  case (Suc n)
  then obtain m1 where 1: "UploadFile_loop sha256 env filename n m =
           Inr (map (allocation sha256 env filename m) [0..<n], m1)" by blast
  from UploadFile_loop_Inr [of sha256 env filename n m] 1
  have cs: "chunkServers m1 = chunkServers m" by auto
  have "replicas env (AddChunkToFile filename (GenerateChunkHandle sha256 filename (int n))
            (AddChunk (GenerateChunkHandle sha256 filename (int n)) filename (int32 (int n)) m1)) n
        = replicas env m n"
    by (rule replicas_cong) (simp add: cs AddChunkToFile_def AddChunk_def split: option.splits)
  then show ?case
    using 1 by (simp add: GetAvailableChunkServers_3 Let_def allocation_def)
qed


section \<open>What holds in every state the code builds\<close>

lemma wellformed_NewMetadata: "wellformed NewMetadata"
  by (simp add: wellformed_def NewMetadata_def)

lemma wellformed_AddChunkLocation: "wellformed m \<Longrightarrow> wellformed (AddChunkLocation h a m)"
  by (auto simp: wellformed_def AddChunkLocation_def split: option.splits if_splits)

lemma wellformed_ReportChunk: "wellformed m \<Longrightarrow> wellformed (snd (ReportChunk h a m))"
  by (simp add: ReportChunk_def wellformed_AddChunkLocation)

lemma wellformed_Heartbeat: "wellformed m \<Longrightarrow> wellformed (snd (Heartbeat a hs now m))"
  by (simp add: wellformed_def Heartbeat_def RegisterChunkServer_def split: option.splits)

lemma wellformed_DownloadFile: "wellformed m \<Longrightarrow> wellformed (snd (DownloadFile filename m))"
  by (simp add: DownloadFile_frame)

lemma UploadFile_loop_fresh:
  assumes "UploadFile_loop sha256 env filename n m = Inr (locs, m')"
  shows "\<forall>h c. chunks m' h = Some c \<longrightarrow> chunks m h = Some c \<or> Locations c = []"
  using assms
proof (induction n arbitrary: locs m')
  case 0
  then show ?case by simp
next
  case (Suc n)
  from UploadFile_loop_locs [of sha256 env filename n m]
  obtain m1 where 1: "UploadFile_loop sha256 env filename n m =
           Inr (map (allocation sha256 env filename m) [0..<n], m1)" by blast
  have "chunks m' = (chunks m1)(GenerateChunkHandle sha256 filename (int n) \<mapsto>
            fresh_chunk sha256 filename n)"
    using Suc.prems 1
    by (auto simp: GetAvailableChunkServers_3 Let_def AddChunk_def AddChunkToFile_def
          fresh_chunk_def split: option.splits)
  then show ?case using Suc.IH [OF 1] by (auto simp: fresh_chunk_def)
qed

lemma wellformed_UploadFile:
  assumes "wellformed m"
  shows "wellformed (snd (UploadFile sha256 env filename filesize m))"
proof (cases "AddFile filename filesize (CalculateNumChunks filesize) (created env) m")
  case (Inl e)
  then show ?thesis using assms by (simp add: UploadFile_def)
next
  case (Inr m0)
  then have m0: "files m0 = (files m)(filename \<mapsto> next_ref m)" "next_ref m0 = Suc (next_ref m)"
     "chunks m0 = chunks m"
    by (auto simp: AddFile_def split: if_splits)
  from UploadFile_loop_Inr [of sha256 env filename "nat (CalculateNumChunks filesize)" m0]
  obtain locs m1 where l: "UploadFile_loop sha256 env filename (nat (CalculateNumChunks filesize)) m0
      = Inr (locs, m1)" "files m1 = files m0" "next_ref m1 = next_ref m0" by blast
  have a: "\<forall>name p. files m1 name = Some p \<longrightarrow> p < next_ref m1"
    using assms l(2,3) m0(1,2) by (auto simp: wellformed_def less_Suc_eq)
  have b: "\<forall>h c. chunks m1 h = Some c \<longrightarrow> distinct (Locations c)"
    using UploadFile_loop_fresh [OF l(1)] assms m0(3) by (fastforce simp: wellformed_def)
  show ?thesis using Inr l(1) a b by (simp add: UploadFile_def wellformed_def)
qed

lemma distinct_count_le_1: "distinct xs \<Longrightarrow> count_list xs x \<le> 1"
  by (induction xs) (auto simp: count_list_0_iff)


section \<open>Chunk reports\<close>











section \<open>The storage index\<close>

text \<open>
  Claim C8. After \<open>WriteChunk(handle, bytes)\<close> succeeds, \<open>ReadChunk(handle)\<close> returns
  exactly those bytes; a later successful \<open>WriteChunk\<close> with the same handle replaces
  them; and \<open>ReadChunk(handle)\<close> fails with the chunk-not-found error exactly when the
  in-memory set excludes the handle.
\<close>

theorem C8_storage_roundtrip:
  "(fst (WriteChunk Join io chunkHandle data s) = None \<longrightarrow>
      ReadChunk Join chunkHandle (snd (WriteChunk Join io chunkHandle data s)) = Inr data)
 \<and> (fst (WriteChunk Join io chunkHandle data s) = None
      \<and> fst (WriteChunk Join io' chunkHandle data' (snd (WriteChunk Join io chunkHandle data s))) = None \<longrightarrow>
      ReadChunk Join chunkHandle
        (snd (WriteChunk Join io' chunkHandle data' (snd (WriteChunk Join io chunkHandle data s))))
        = Inr data')
 \<and> (fst (WriteChunk Join io chunkHandle data s) = None \<longrightarrow>
      HasChunk chunkHandle (snd (WriteChunk Join io chunkHandle data s)))
 \<and> ((\<exists>h. ReadChunk Join chunkHandle s = Inl (ChunkNotFound h)) \<longleftrightarrow> \<not> HasChunk chunkHandle s)
 \<and> (\<not> HasChunk chunkHandle s \<longrightarrow> ReadChunk Join chunkHandle s = Inl (ChunkNotFound chunkHandle))"
proof -
  have hc: "fst (WriteChunk Join io chunkHandle data s) = None \<longrightarrow>
      HasChunk chunkHandle (snd (WriteChunk Join io chunkHandle data s))"
    by (cases io) (simp_all add: WriteChunk_def HasChunk_def index_bool_def Let_def)
  have w: "fst (WriteChunk Join io h d t) = None \<Longrightarrow>
      ReadChunk Join h (snd (WriteChunk Join io h d t)) = Inr d" for io h d t
    by (cases io) (simp_all add: WriteChunk_def ReadChunk_def index_bool_def Let_def)
  have r: "(\<exists>h. ReadChunk Join chunkHandle s = Inl (ChunkNotFound h)) \<longleftrightarrow> \<not> HasChunk chunkHandle s"
    by (auto simp: ReadChunk_def HasChunk_def Let_def split: option.splits)
  have r': "\<not> HasChunk chunkHandle s \<longrightarrow> ReadChunk Join chunkHandle s = Inl (ChunkNotFound chunkHandle)"
    by (simp add: ReadChunk_def HasChunk_def)
  show ?thesis using w hc r r' by blast
qed

text \<open>Claim C8 on an empty storage: two writes of one handle, and a read before them.\<close>

theorem C8_storage_roundtrip_witness:
  "fst (WriteChunk example_Join WriteOk ''ab12'' [1, 2, 3] example_storage) = None
 \<and> ReadChunk example_Join ''ab12'' (snd (WriteChunk example_Join WriteOk ''ab12'' [1, 2, 3] example_storage)) = Inr [1, 2, 3]
 \<and> ReadChunk example_Join ''ab12''
      (snd (WriteChunk example_Join WriteOk ''ab12'' [7]
         (snd (WriteChunk example_Join WriteOk ''ab12'' [1, 2, 3] example_storage)))) = Inr [7]
 \<and> \<not> HasChunk ''ab12'' example_storage
 \<and> ReadChunk example_Join ''ab12'' example_storage = Inl (ChunkNotFound ''ab12'')"
  using C8_storage_roundtrip [of example_Join WriteOk "''ab12''" "[1, 2, 3]" example_storage WriteOk "[7]"]
  by (simp add: WriteChunk_def HasChunk_def index_bool_def example_storage_def)

section \<open>Listing files\<close>

lemma ListFiles_loop_set:
  "set (ListFiles_loop fs ks acc) = set acc \<union> {p. \<exists>k \<in> set ks. fs k = Some p}"
  by (induction ks arbitrary: acc) (auto split: option.splits)

lemma ListFiles_set: "set (ListFiles order m) = {p. \<exists>k \<in> set order. files m k = Some p}"
  by (simp add: ListFiles_def ListFiles_loop_set)

lemma ListFiles_loop_map:
  "set ks \<subseteq> dom fs \<Longrightarrow> ListFiles_loop fs ks acc = acc @ map (\<lambda>k. the (fs k)) ks"
  by (induction ks arbitrary: acc) (auto split: option.splits)

lemma ListFiles_all:
  "iteration_of order (files m) \<Longrightarrow> ListFiles order m = map (\<lambda>k. the (files m k)) order"
  by (simp add: ListFiles_def ListFiles_loop_map iteration_of_def)

lemma ListFiles_ran:
  "iteration_of order (files m) \<Longrightarrow> set (ListFiles order m) = ran (files m)"
  by (auto simp: ListFiles_set iteration_of_def ran_def dom_def)

text \<open>
  Claim C9, as amended. \<open>ListFiles\<close> returns a new list of pointers to the stored file
  records, one for each record, not copies of them. In a state whose pointers are all
  allocated, an \<open>AddFile\<close> after the call, which allocates a new record (also when it
  overwrites a name), does not change what is read through a list returned before. An
  \<open>AddChunkToFile\<close> on a listed file does: the record that the list points to has the
  handle appended.
\<close>

theorem C9_ListFiles_shares_records:
  assumes "\<forall>name p. files m name = Some p \<longrightarrow> p < next_ref m"
  shows "(\<forall>filename filesize chunkCount now m'.
            AddFile filename filesize chunkCount now m = Inr m' \<longrightarrow>
              deref_all m' (ListFiles order m) = deref_all m (ListFiles order m))
      \<and> (\<forall>filename chunkHandle p.
            files m filename = Some p \<and> filename \<in> set order \<longrightarrow>
              p \<in> set (ListFiles order m)
            \<and> Chunks (file_heap (AddChunkToFile filename chunkHandle m) p) =
                Chunks (file_heap m p) @ [chunkHandle])
      \<and> (iteration_of order (files m) \<longrightarrow>
            set (ListFiles order m) = ran (files m)
          \<and> length (ListFiles order m) = length order)"
proof (intro conjI allI impI)
  assume "iteration_of order (files m)"
  then show "set (ListFiles order m) = ran (files m)" by (rule ListFiles_ran)
next
  assume "iteration_of order (files m)"
  then show "length (ListFiles order m) = length order" by (simp add: ListFiles_all)
next
  fix filename filesize chunkCount now m'
  assume a: "AddFile filename filesize chunkCount now m = Inr m'"
  have "\<forall>p \<in> set (ListFiles order m). p < next_ref m"
    using assms by (auto simp: ListFiles_set)
  moreover have "\<forall>p. p < next_ref m \<longrightarrow> file_heap m' p = file_heap m p"
    using a by (auto simp: AddFile_def split: if_splits)
  ultimately show "deref_all m' (ListFiles order m) = deref_all m (ListFiles order m)"
    by (simp add: deref_all_def)
next
  fix filename chunkHandle p
  assume "files m filename = Some p \<and> filename \<in> set order"
  then show "p \<in> set (ListFiles order m)" by (auto simp: ListFiles_set)
next
  fix filename chunkHandle p
  assume "files m filename = Some p \<and> filename \<in> set order"
  then show "Chunks (file_heap (AddChunkToFile filename chunkHandle m) p) =
                Chunks (file_heap m p) @ [chunkHandle]"
    by (simp add: AddChunkToFile_def)
qed

text \<open>
  Claim C9 as stated fails: the list returned for the file \<open>f\<close> shows one handle before
  \<open>AddChunkToFile\<close> and two handles after it.
\<close>

theorem C9_counterexample:
  "ListFiles [''f''] example_master = [0]
 \<and> map Chunks (deref_all example_master (ListFiles [''f''] example_master)) =
      [[GenerateChunkHandle example_sha256 ''f'' 0]]
 \<and> map Chunks (deref_all (AddChunkToFile ''f'' ''abcd'' example_master)
        (ListFiles [''f''] example_master)) =
      [[GenerateChunkHandle example_sha256 ''f'' 0, ''abcd'']]"
  by (simp add: example_master_eq ListFiles_def deref_all_def AddChunkToFile_def)

text \<open>The amended claim C9 on the metadata that holds the file \<open>f\<close>.\<close>

theorem C9_ListFiles_shares_records_witness:
  "deref_all (projr (AddFile ''f'' 9 1 7 example_master)) (ListFiles [''f''] example_master)
     = deref_all example_master (ListFiles [''f''] example_master)
 \<and> 0 \<in> set (ListFiles [''f''] example_master)
 \<and> Chunks (file_heap (AddChunkToFile ''f'' ''abcd'' example_master) 0) =
      Chunks (file_heap example_master 0) @ [''abcd'']
 \<and> set (ListFiles [''f''] example_master) = ran (files example_master)"
proof -
  have wf: "\<forall>name p. files example_master name = Some p \<longrightarrow> p < next_ref example_master"
    by (simp add: example_master_eq)
  have a: "AddFile ''f'' 9 1 7 example_master = Inr (projr (AddFile ''f'' 9 1 7 example_master))"
    by (simp add: AddFile_def)
  have f: "files example_master ''f'' = Some 0 \<and> ''f'' \<in> set [''f'']"
    by (simp add: example_master_eq)
  have it: "iteration_of [''f''] (files example_master)"
    by (simp add: example_master_eq iteration_of_def)
  from C9_ListFiles_shares_records [OF wf, of "[''f'']"] a f it
  show ?thesis by blast
qed
section \<open>The client's upload\<close>

lemma int32_id: "0 \<le> i \<Longrightarrow> i < 2 ^ 31 \<Longrightarrow> int32 i = i"
  by (simp add: int32_def)

lemma chunk_start_in_range:
  assumes "0 \<le> len" and "int i < CalculateNumChunks len"
  shows "int i * ChunkSize < len"
proof -
  have pos: "0 < ChunkSize" by (rule ChunkSize_pos)
  have eq: "len = ChunkSize * (len div ChunkSize) + len mod ChunkSize" by simp
  show ?thesis
  proof (cases "len mod ChunkSize = 0")
    case True
    then have "int i + 1 \<le> len div ChunkSize"
      using assms pos by (simp add: CalculateNumChunks_def go_quot_nonneg go_rem_nonneg)
    then have "(int i + 1) * ChunkSize \<le> (len div ChunkSize) * ChunkSize"
      using pos by (simp only: mult_le_cancel_right) simp
    also have "\<dots> = len" using True eq by (simp add: mult.commute)
    finally show ?thesis using pos by (simp add: algebra_simps)
  next
    case False
    then have "int i \<le> len div ChunkSize"
      using assms pos by (simp add: CalculateNumChunks_def go_quot_nonneg go_rem_nonneg)
    then have "int i * ChunkSize \<le> (len div ChunkSize) * ChunkSize"
      using pos by (simp only: mult_le_cancel_right) simp
    moreover have "0 < len mod ChunkSize"
      using False pos pos_mod_sign [of ChunkSize len] by linarith
    ultimately show ?thesis using eq by (simp only: mult.commute [of _ ChunkSize])
  qed
qed


lemma CalculateNumChunks_mono_bound:
  assumes "0 \<le> len" and "len \<le> k * ChunkSize" and "0 \<le> k"
  shows "CalculateNumChunks len \<le> k"
proof (rule ccontr)
  assume "\<not> CalculateNumChunks len \<le> k"
  then have "int (nat k) < CalculateNumChunks len" using assms(3) by simp
  from chunk_start_in_range [OF assms(1) this]
  show False using assms(2,3) by simp
qed

lemma uploadChunk_in_range:
  assumes "0 \<le> loc_ChunkIndex chunkLoc"
      and "loc_ChunkIndex chunkLoc * ChunkSize \<le> int (length fileData)"
  shows "fst (uploadChunk Join net fileData chunkLoc sys) = None"
  using assms ChunkSize_pos
  by (simp add: uploadChunk_def slice_bytes_def Let_def)

lemma Client_UploadFile_loop_in_range:
  assumes "\<forall>loc \<in> set locs. 0 \<le> loc_ChunkIndex loc
             \<and> loc_ChunkIndex loc * ChunkSize \<le> int (length data)"
  shows "fst (Client_UploadFile_loop Join net data locs sys) = None"
  using assms
proof (induction locs arbitrary: sys)
  case Nil
  show ?case by simp
next
  case (Cons loc locs)
  have "fst (uploadChunk Join net data loc sys) = None"
    using Cons.prems by (simp add: uploadChunk_in_range)
  then obtain sys' where u: "uploadChunk Join net data loc sys = (None, sys')"
    by (cases "uploadChunk Join net data loc sys") auto
  have "fst (Client_UploadFile_loop Join net data locs sys') = None"
    using Cons.IH Cons.prems by simp
  then show ?case using u by simp
qed

lemma allocations_in_range:
  assumes "int (length data) \<le> 2 ^ 31 * ChunkSize"
  shows "\<forall>loc \<in> set (map (allocation sha256 env filename m)
                        [0..<nat (CalculateNumChunks (int (length data)))]).
           0 \<le> loc_ChunkIndex loc \<and> loc_ChunkIndex loc * ChunkSize \<le> int (length data)"
proof
  fix loc
  assume "loc \<in> set (map (allocation sha256 env filename m)
                        [0..<nat (CalculateNumChunks (int (length data)))])"
  then obtain i where i: "i < nat (CalculateNumChunks (int (length data)))"
    and loc: "loc = allocation sha256 env filename m i" by auto
  have n: "CalculateNumChunks (int (length data)) \<le> 2 ^ 31"
    using assms by (intro CalculateNumChunks_mono_bound) simp_all
  have ii: "int i < CalculateNumChunks (int (length data))" using i by simp
  then have "int i < 2 ^ 31" using n by linarith
  then have idx: "loc_ChunkIndex loc = int i"
    by (simp add: loc allocation_def int32_id)
  have "int i * ChunkSize < int (length data)"
    using ii by (intro chunk_start_in_range) simp_all
  then show "0 \<le> loc_ChunkIndex loc \<and> loc_ChunkIndex loc * ChunkSize \<le> int (length data)"
    using idx by simp
qed

lemma UploadFile_allocations:
  assumes "0 \<le> filesize"
  shows "fst (UploadFile sha256 env filename filesize m) =
           Inr (map (allocation sha256 env filename m) [0..<nat (CalculateNumChunks filesize)])"
proof -
  let ?n = "CalculateNumChunks filesize"
  have n0: "0 \<le> ?n" using assms by (rule CalculateNumChunks_ge0)
  then obtain m1 where m1: "AddFile filename filesize ?n (created env) m = Inr m1"
     and cs: "chunkServers m1 = chunkServers m"
    by (simp add: AddFile_def)
  from UploadFile_loop_locs [of sha256 env filename "nat ?n" m1]
  obtain m2 where "UploadFile_loop sha256 env filename (nat ?n) m1 =
     Inr (map (allocation sha256 env filename m1) [0..<nat ?n], m2)" by blast
  moreover have "allocation sha256 env filename m1 = allocation sha256 env filename m"
    by (rule ext) (simp add: allocation_def replicas_cong [OF cs])
  ultimately show ?thesis using m1 by (simp add: UploadFile_def)
qed

lemma Client_UploadFile_result:
  assumes "int (length data) \<le> 2 ^ 31 * ChunkSize"
  shows "fst (Client_UploadFile sha256 Join net env (Some data) remoteName sys) =
           (if master_up net then None else Some (RequestUploadFailed (Unavailable MasterAddress)))"
proof (cases "master_up net")
  case False
  then show ?thesis by (simp add: Client_UploadFile_def)
next
  case True
  obtain r m' where u: "UploadFile sha256 env remoteName (int (length data)) (master sys) = (r, m')"
    by (cases "UploadFile sha256 env remoteName (int (length data)) (master sys)") auto
  have r: "r = Inr (map (allocation sha256 env remoteName (master sys))
                      [0..<nat (CalculateNumChunks (int (length data)))])"
    using UploadFile_allocations [of "int (length data)" sha256 env remoteName "master sys"] u
    by simp
  show ?thesis
    using True u r
      Client_UploadFile_loop_in_range [OF allocations_in_range [OF assms]]
    by (simp add: Client_UploadFile_def)
qed

text \<open>
  Claim C4, as amended. For a local file that can be read (of at most \<open>2^31\<close> chunks),
  the client's upload returns success exactly when the coordinator answers its
  \<open>UploadFile\<close> request, whatever the replica writes do: a failed \<open>WriteChunk\<close> is
  logged and skipped, and a chunk that no replica accepted does not prevent success.
\<close>

theorem C4_upload_ignores_replica_failures:
  assumes "int (length data) \<le> 2 ^ 31 * ChunkSize"
  shows "fst (Client_UploadFile sha256 Join net env (Some data) remoteName sys) =
           (if master_up net then None else Some (RequestUploadFailed (Unavailable MasterAddress)))"
  using assms by (rule Client_UploadFile_result)

lemmas eval_client = Client_UploadFile_def example_system_def example_cluster_def Heartbeat_def
  RegisterChunkServer_def NewMetadata_def example_net_down_def example_env100_def
  UploadFile_def CalculateNumChunks_def go_quot_def go_rem_def ChunkSize_def AddFile_def
  GetAvailableChunkServers_def ReplicationFactor_def Sub_def maxDuration_def minDuration_def
  Second_def Let_def AddChunk_def AddChunkToFile_def int32_def uploadChunk_def slice_bytes_def
  writeChunkToServer_def

text \<open>
  Claim C4 as stated fails: the file \<open>f\<close> of two bytes gets one chunk, placed on the one
  live node \<open>n1\<close>; that node does not answer, so the only \<open>WriteChunk\<close> fails; the
  upload returns success and no node has stored anything.
\<close>

theorem C4_counterexample:
  "fst (UploadFile example_sha256 example_env100 ''f'' 2 (master example_system)) =
     Inr [\<lparr>loc_ChunkHandle = GenerateChunkHandle example_sha256 ''f'' 0,
           loc_ChunkServerAddresses = [''n1''], loc_ChunkIndex = 0\<rparr>]
 \<and> fst (writeChunkToServer example_Join example_net_down ''n1''
          (GenerateChunkHandle example_sha256 ''f'' 0) [1, 2] example_system) =
     Some (Unavailable ''n1'')
 \<and> fst (Client_UploadFile example_sha256 example_Join example_net_down example_env100
          (Some [1, 2]) ''f'' example_system) = None
 \<and> nodes (snd (Client_UploadFile example_sha256 example_Join example_net_down example_env100
          (Some [1, 2]) ''f'' example_system)) = nodes example_system"
  by (simp add: eval_client)

text \<open>The amended claim C4 on that run.\<close>

theorem C4_upload_ignores_replica_failures_witness:
  "int (length [1, 2 :: byte]) \<le> 2 ^ 31 * ChunkSize
 \<and> fst (Client_UploadFile example_sha256 example_Join example_net_down example_env100
          (Some [1, 2]) ''f'' example_system) = None"
  using C4_upload_ignores_replica_failures [of "[1, 2]" example_sha256 example_Join
          example_net_down example_env100 "''f''" example_system]
  by (simp add: ChunkSize_def example_net_down_def)

section \<open>Upload followed by download\<close>

















end
